theory Spec2Isabelle
  imports Complex_Main
begin

section \<open>Project Eidolon graph visualizer: data model\<close>

text \<open>
  The embedding follows \<^verbatim>\<open>src/tools/graph_visualizer.py\<close>. Python ints are modelled as
  \<^typ>\<open>int\<close>. Python floats are modelled as \<^typ>\<open>real\<close>, computed exactly (no rounding,
  no NaN, no infinities); the section on binary64 arithmetic gives the engine tick a
  second time with every operation rounded, for the property that depends on rounding.
  Entities and agents are Python dicts; a key that the code tests with
  \<^verbatim>\<open>'k' not in entity\<close> or reads with \<^verbatim>\<open>.get\<close> is an optional field here.
\<close>

text \<open>The value under \<^verbatim>\<open>'last_accessed'\<close>: a number or an ISO date string.\<close>

datatype stamp = Num real | Str string

record entity =
  eid :: string
  name :: string
  entity_type :: "string option"
  description :: string
  strain_amplitude :: "real option"
  node_resistance :: "real option"
  musical_frequency :: "int option"
  gravitational_mass :: "real option"
  access_count :: "int option"
  last_accessed :: "stamp option"

record agent =
  agent_id :: string
  agent_name :: string
  domain :: string
  current_strain :: real
  agent_mass :: "real option"
  agent_access_count :: "int option"
  agent_last_accessed :: "stamp option"

text \<open>A stored relationship (edge) as the loaders produce it.\<close>

record relationship =
  rel_id :: string
  rel_from :: string
  rel_to :: string
  rel_type :: string
  rel_weight :: real

text \<open>
  An item of \<^verbatim>\<open>update_queue\<close>. The \<^verbatim>\<open>'update'\<close> item holds the timestamp; its
  \<^verbatim>\<open>'data'\<close> are references to the live lists \<^verbatim>\<open>visualizer.agents\<close> and
  \<^verbatim>\<open>visualizer.entities\<close>, not copies, so they carry no data of their own here.
  In a \<^verbatim>\<open>'prompt_response'\<close> item the new entities are references to dicts stored in
  \<^verbatim>\<open>visualizer.entities\<close>; the list is only ever appended to, so a reference is the
  index of the dict in that list.
\<close>

record new_relationship =
  nr_id :: string
  from_entity :: string
  to_entity :: string
  relationship_type :: string
  strength :: real

record strain_change =
  entity_id :: string
  old_strain :: real
  new_strain :: real
  reason :: string

record response =
  processed_prompt :: string
  ai_response :: string
  new_entities :: "nat list"
  new_relationships :: "new_relationship list"
  strain_changes :: "strain_change list"

datatype update =
    Update real
  | PromptResponse real string response

text \<open>
  The process-wide state: the three lists of the \<^verbatim>\<open>GraphVisualizer\<close> instance,
  the shared \<^verbatim>\<open>queue.Queue\<close> (oldest item first) and \<^verbatim>\<open>last_update_time\<close>.
\<close>

record system =
  agents :: "agent list"
  entities :: "entity list"
  relationships :: "relationship list"
  update_queue :: "update list"
  last_update_time :: real

section \<open>The random source\<close>

text \<open>
  Python's \<^verbatim>\<open>random\<close> module is a library outside the repository. It is modelled as
  an infinite supply of samples of \<^verbatim>\<open>random.random()\<close>, consumed front to back;
  \<^verbatim>\<open>random.uniform(a, b)\<close> is \<^verbatim>\<open>a + (b - a) * random()\<close> as in CPython, and
  \<^verbatim>\<open>random.randint(a, b)\<close> picks \<^verbatim>\<open>a + floor(random() * (b - a + 1))\<close>.
\<close>

type_synonym rng = "nat \<Rightarrow> real"

definition rng_ok :: "rng \<Rightarrow> bool" where
  "rng_ok g \<longleftrightarrow> (\<forall>i. 0 \<le> g i \<and> g i < 1)"

definition advance :: "rng \<Rightarrow> rng" where
  "advance g = (\<lambda>i. g (Suc i))"

definition random :: "rng \<Rightarrow> real \<times> rng" where
  "random g = (g 0, advance g)"

definition uniform :: "real \<Rightarrow> real \<Rightarrow> rng \<Rightarrow> real \<times> rng" where
  "uniform a b g = (a + (b - a) * g 0, advance g)"

definition randint :: "int \<Rightarrow> int \<Rightarrow> rng \<Rightarrow> int \<times> rng" where
  "randint a b g = (a + \<lfloor>g 0 * real_of_int (b - a + 1)\<rfloor>, advance g)"

section \<open>The shared update queue\<close>

text \<open>
  There is one \<^verbatim>\<open>queue.Queue\<close> for the whole process. \<^verbatim>\<open>put\<close> appends;
  \<^verbatim>\<open>get(timeout=5)\<close> removes and returns the oldest item, or raises
  \<^verbatim>\<open>queue.Empty\<close> when none arrives in time (\<open>None\<close> here).
\<close>

definition queue_put :: "update \<Rightarrow> update list \<Rightarrow> update list" where
  "queue_put u q = q @ [u]"

definition queue_get :: "update list \<Rightarrow> (update \<times> update list) option" where
  "queue_get q = (case q of [] \<Rightarrow> None | u # rest \<Rightarrow> Some (u, rest))"

section \<open>The engine tick: one pass of \<^verbatim>\<open>background_updater\<close>\<close>

text \<open>
  \<^verbatim>\<open>s.replace('Z', '+00:00')\<close>, then \<^verbatim>\<open>datetime.fromisoformat(...).timestamp()\<close>.
  The parser is library code: it is a parameter that returns \<open>None\<close> where Python raises.
\<close>

definition replace_Z :: "string \<Rightarrow> string" where
  "replace_Z s = concat (map (\<lambda>c. if c = CHR ''Z'' then ''+00:00'' else [c]) s)"

definition last_access_of :: "(string \<Rightarrow> real option) \<Rightarrow> real \<Rightarrow> stamp \<Rightarrow> real" where
  "last_access_of fromisoformat current_time st =
     (case st of
        Str s \<Rightarrow> (case fromisoformat (replace_Z s) of
                    Some t \<Rightarrow> t
                  | None \<Rightarrow> current_time)
      | Num x \<Rightarrow> x)"

definition or_default :: "'a option \<Rightarrow> 'a \<Rightarrow> 'a" where
  "or_default v d = (case v of None \<Rightarrow> d | Some x \<Rightarrow> x)"

definition update_agent :: "(string \<Rightarrow> real option) \<Rightarrow> real \<Rightarrow> agent \<Rightarrow> agent" where
  "update_agent fromisoformat current_time a =
     (let stamp0 = or_default (agent_last_accessed a) (Num current_time);
          count0 = or_default (agent_access_count a) 1;
          last_access = last_access_of fromisoformat current_time stamp0;
          time_since_access = current_time - last_access;
          time_factor = 1 + 1 / max time_since_access 1;
          new_mass = 1 * real_of_int count0 * time_factor
      in a\<lparr>agent_mass := Some new_mass,
            agent_access_count := Some count0,
            agent_last_accessed := Some (Num current_time)\<rparr>)"

text \<open>
  One iteration of the loop over \<^verbatim>\<open>visualizer.entities\<close>: missing fields get their
  defaults, the mass and the access time are rewritten, the resistance is set from the
  strain read at that moment, and only then the strain is updated.
\<close>

definition update_entity ::
  "(string \<Rightarrow> real option) \<Rightarrow> real \<Rightarrow> entity \<Rightarrow> rng \<Rightarrow> entity \<times> rng" where
  "update_entity fromisoformat current_time e g =
     (let stamp0 = or_default (last_accessed e) (Num current_time);
          count0 = or_default (access_count e) 1;
          strain0 = or_default (strain_amplitude e) 0;
          freq0 = or_default (musical_frequency e) 440;
          last_access = last_access_of fromisoformat current_time stamp0;
          time_since_access = current_time - last_access;
          time_factor = 1 + 1 / max time_since_access 1;
          new_mass = 1 * real_of_int count0 * time_factor;
          total_resistance = sum_list [strain0];
          e1 = e\<lparr>gravitational_mass := Some new_mass,
                 access_count := Some count0,
                 musical_frequency := Some freq0,
                 last_accessed := Some (Num current_time),
                 node_resistance := Some total_resistance,
                 strain_amplitude := Some strain0\<rparr>;
          current_strain = strain0
      in if current_strain > 0 then
           (let (r, g1) = random g in
            if r < 0.05 then
              (let (dissonance, g2) = uniform 0.1 0.2 g1
               in (e1\<lparr>strain_amplitude := Some (current_strain + dissonance)\<rparr>, g2))
            else (e1\<lparr>strain_amplitude := Some (max 0 (current_strain * 0.98))\<rparr>, g1))
         else (e1, g))"

fun update_entities ::
  "(string \<Rightarrow> real option) \<Rightarrow> real \<Rightarrow> entity list \<Rightarrow> rng \<Rightarrow> entity list \<times> rng" where
  "update_entities fromisoformat current_time [] g = ([], g)"
| "update_entities fromisoformat current_time (e # es) g =
     (let (e', g1) = update_entity fromisoformat current_time e g;
          (es', g2) = update_entities fromisoformat current_time es g1
      in (e' # es', g2))"

text \<open>
  The body of the \<^verbatim>\<open>while True\<close> loop after the sleep, at wall-clock time
  \<open>current_time\<close>: agents, then entities, then \<^verbatim>\<open>last_update_time\<close>, then one
  \<^verbatim>\<open>update_queue.put\<close>.
\<close>

definition tick :: "(string \<Rightarrow> real option) \<Rightarrow> real \<Rightarrow> system \<Rightarrow> rng \<Rightarrow> system \<times> rng" where
  "tick fromisoformat current_time s g =
     (let agents' = map (update_agent fromisoformat current_time) (agents s);
          (entities', g') = update_entities fromisoformat current_time (entities s) g
      in (s\<lparr>agents := agents',
             entities := entities',
             last_update_time := current_time,
             update_queue := queue_put (Update current_time) (update_queue s)\<rparr>, g'))"

section \<open>Bulk reads\<close>

datatype py_error = KeyError string | AttributeError

text \<open>
  \<^verbatim>\<open>get_entities\<close>: \<^verbatim>\<open>if strain_threshold:\<close> and \<^verbatim>\<open>if entity_type:\<close> test Python
  truthiness, so \<open>None\<close>, the number zero and the empty string all skip the filter.
  \<^verbatim>\<open>e["strain_amplitude"]\<close> and \<^verbatim>\<open>e["entity_type"]\<close> raise \<^verbatim>\<open>KeyError\<close> on a dict
  without the key.
\<close>

fun filter_strain :: "real \<Rightarrow> entity list \<Rightarrow> py_error + entity list" where
  "filter_strain t [] = Inr []"
| "filter_strain t (e # es) =
     (case strain_amplitude e of
        None \<Rightarrow> Inl (KeyError ''strain_amplitude'')
      | Some a \<Rightarrow>
          (case filter_strain t es of
             Inl err \<Rightarrow> Inl err
           | Inr rest \<Rightarrow> Inr (if a > t then e # rest else rest)))"

fun filter_type :: "string \<Rightarrow> entity list \<Rightarrow> py_error + entity list" where
  "filter_type ty [] = Inr []"
| "filter_type ty (e # es) =
     (case entity_type e of
        None \<Rightarrow> Inl (KeyError ''entity_type'')
      | Some ty' \<Rightarrow>
          (case filter_type ty es of
             Inl err \<Rightarrow> Inl err
           | Inr rest \<Rightarrow> Inr (if ty' = ty then e # rest else rest)))"

definition truthy_float :: "real option \<Rightarrow> bool" where
  "truthy_float v = (case v of None \<Rightarrow> False | Some x \<Rightarrow> x \<noteq> 0)"

definition truthy_str :: "string option \<Rightarrow> bool" where
  "truthy_str v = (case v of None \<Rightarrow> False | Some x \<Rightarrow> x \<noteq> [])"

definition get_entities ::
  "real option \<Rightarrow> string option \<Rightarrow> system \<Rightarrow> py_error + entity list" where
  "get_entities strain_threshold ety s =
     (case (if truthy_float strain_threshold
            then filter_strain (or_default strain_threshold 0) (entities s)
            else Inr (entities s)) of
        Inl err \<Rightarrow> Inl err
      | Inr es \<Rightarrow>
          (if truthy_str ety then filter_type (or_default ety []) es else Inr es))"

text \<open>
  The handler \<^verbatim>\<open>api_entities\<close> returns what \<^verbatim>\<open>get_entities\<close> returns; neither
  assigns to any entity, so the state after the call is the state before it.
\<close>

definition api_entities ::
  "real option \<Rightarrow> string option \<Rightarrow> system \<Rightarrow> (py_error + entity list) \<times> system" where
  "api_entities strain_threshold ety s = (get_entities strain_threshold ety s, s)"

section \<open>Python string operations used by the ingestion hook\<close>

text \<open>
  Strings are lists of code points below 256. On these, \<^verbatim>\<open>str.isspace\<close> holds for
  9 to 13, 28 to 32, 133 and 160, and \<^verbatim>\<open>str.lower\<close> maps A to Z and the capital
  letters 192 to 222 (but not the multiplication sign 215) to the letter 32 places up.
\<close>

definition isspace :: "char \<Rightarrow> bool" where
  "isspace c = (let n = (of_char c :: nat)
                in (9 \<le> n \<and> n \<le> 13) \<or> (28 \<le> n \<and> n \<le> 32) \<or> n = 133 \<or> n = 160)"

definition upper_chars :: string where
  "upper_chars = ''ABCDEFGHIJKLMNOPQRSTUVWXYZ'' @
     [CHR 0xC0, CHR 0xC1, CHR 0xC2, CHR 0xC3, CHR 0xC4, CHR 0xC5, CHR 0xC6, CHR 0xC7,
      CHR 0xC8, CHR 0xC9, CHR 0xCA, CHR 0xCB, CHR 0xCC, CHR 0xCD, CHR 0xCE, CHR 0xCF,
      CHR 0xD0, CHR 0xD1, CHR 0xD2, CHR 0xD3, CHR 0xD4, CHR 0xD5, CHR 0xD6,
      CHR 0xD8, CHR 0xD9, CHR 0xDA, CHR 0xDB, CHR 0xDC, CHR 0xDD, CHR 0xDE]"

definition lower_chars :: string where
  "lower_chars = ''abcdefghijklmnopqrstuvwxyz'' @
     [CHR 0xE0, CHR 0xE1, CHR 0xE2, CHR 0xE3, CHR 0xE4, CHR 0xE5, CHR 0xE6, CHR 0xE7,
      CHR 0xE8, CHR 0xE9, CHR 0xEA, CHR 0xEB, CHR 0xEC, CHR 0xED, CHR 0xEE, CHR 0xEF,
      CHR 0xF0, CHR 0xF1, CHR 0xF2, CHR 0xF3, CHR 0xF4, CHR 0xF5, CHR 0xF6,
      CHR 0xF8, CHR 0xF9, CHR 0xFA, CHR 0xFB, CHR 0xFC, CHR 0xFD, CHR 0xFE]"

definition lower_char :: "char \<Rightarrow> char" where
  "lower_char c = (case map_of (zip upper_chars lower_chars) c of
                     Some l \<Rightarrow> l
                   | None \<Rightarrow> c)"

definition lower :: "string \<Rightarrow> string" where
  "lower s = map lower_char s"

definition strip :: "string \<Rightarrow> string" where
  "strip s = rev (dropWhile isspace (rev (dropWhile isspace s)))"

text \<open>\<^verbatim>\<open>str.split()\<close> with no argument: the maximal runs of non-space characters.\<close>

fun split_from :: "string \<Rightarrow> string \<Rightarrow> string list" where
  "split_from cur [] = (if cur = [] then [] else [cur])"
| "split_from cur (c # cs) =
     (if isspace c
      then (if cur = [] then split_from [] cs else cur # split_from [] cs)
      else split_from (cur @ [c]) cs)"

definition split :: "string \<Rightarrow> string list" where
  "split s = split_from [] s"

text \<open>\<^verbatim>\<open>int(x)\<close> on a float truncates toward zero; \<^verbatim>\<open>str\<close> of an int is decimal.\<close>

definition py_int :: "real \<Rightarrow> int" where
  "py_int x = (if 0 \<le> x then \<lfloor>x\<rfloor> else \<lceil>x\<rceil>)"

definition digit_char :: "nat \<Rightarrow> char" where
  "digit_char d = ''0123456789'' ! d"

fun str_nat :: "nat \<Rightarrow> string" where
  "str_nat n = (if n < 10 then [digit_char n]
                else str_nat (n div 10) @ [digit_char (n mod 10)])"

definition str_int :: "int \<Rightarrow> string" where
  "str_int i = (if i < 0 then CHR ''-'' # str_nat (nat (- i)) else str_nat (nat i))"

section \<open>The ingestion hook: \<^verbatim>\<open>process_prompt\<close> and \<^verbatim>\<open>api_process_prompt\<close>\<close>

definition stop_words :: "string list" where
  "stop_words = [''the'', ''a'', ''an'', ''and'', ''or'', ''but'', ''in'', ''on'', ''at'',
                 ''to'', ''for'', ''of'', ''with'', ''by'']"

text \<open>\<^verbatim>\<open>next((e for e in entities if ...), None)\<close>: the first match, as its index.\<close>

fun find_index_of :: "('a \<Rightarrow> bool) \<Rightarrow> 'a list \<Rightarrow> nat option" where
  "find_index_of P [] = None"
| "find_index_of P (x # xs) =
     (if P x then Some 0 else map_option Suc (find_index_of P xs))"

definition new_word_entity :: "string \<Rightarrow> real \<Rightarrow> int \<Rightarrow> entity" where
  "new_word_entity word current_time freq =
     \<lparr>eid = ''word_'' @ word @ ''_'' @ str_int (py_int current_time),
      name = word,
      entity_type = Some ''concept_type'',
      description = ''Word: '' @ word,
      strain_amplitude = Some 0,
      node_resistance = Some 0,
      musical_frequency = Some freq,
      gravitational_mass = Some 1,
      access_count = Some 1,
      last_accessed = Some (Num current_time)\<rparr>"

text \<open>
  The loop over the words. \<^verbatim>\<open>existing_entity['access_count'] += 1\<close> raises
  \<^verbatim>\<open>KeyError\<close> on a dict without the key; the exception leaves the function with the
  entities appended so far still in place, so the result carries the state next to the error.
\<close>

fun add_words ::
  "real \<Rightarrow> string list \<Rightarrow> entity list \<Rightarrow> nat list \<Rightarrow> rng
   \<Rightarrow> py_error option \<times> entity list \<times> nat list \<times> rng" where
  "add_words current_time [] es refs g = (None, es, refs, g)"
| "add_words current_time (word # ws) es refs g =
     (if word \<in> set stop_words then add_words current_time ws es refs g
      else
        (case find_index_of (\<lambda>e. lower (name e) = word) es of
           Some i \<Rightarrow>
             (case access_count (es ! i) of
                None \<Rightarrow> (Some (KeyError ''access_count''), es, refs, g)
              | Some n \<Rightarrow>
                  add_words current_time ws
                    (es[i := (es ! i)\<lparr>access_count := Some (n + 1),
                                      last_accessed := Some (Num current_time)\<rparr>])
                    refs g)
         | None \<Rightarrow>
             (let (freq, g1) = randint 261 493 g
              in add_words current_time ws
                   (es @ [new_word_entity word current_time freq])
                   (refs @ [length es]) g1)))"

text \<open>\<^verbatim>\<open>xs[-n:]\<close>: the last \<open>n\<close> elements, and the whole list when \<open>n\<close> is 0.\<close>

definition last_slice :: "nat \<Rightarrow> 'a list \<Rightarrow> 'a list" where
  "last_slice n xs = (if n = 0 then xs else drop (length xs - n) xs)"

text \<open>
  The two connection passes only draw random numbers and fill \<^verbatim>\<open>response['new_relationships']\<close>.
  \<^verbatim>\<open>i != j and random.random() < 0.1\<close> draws a sample only when \<^verbatim>\<open>i != j\<close>.
\<close>

fun connect_inner ::
  "nat \<Rightarrow> entity \<Rightarrow> nat \<Rightarrow> entity list \<Rightarrow> rng \<Rightarrow> new_relationship list \<times> rng" where
  "connect_inner i entity1 j [] g = ([], g)"
| "connect_inner i entity1 j (entity2 # es) g =
     (if i \<noteq> j then
        (let (r, g1) = random g in
         if r < 0.1 then
           (let (st, g2) = uniform 0.1 0.9 g1;
                (rest, g3) = connect_inner i entity1 (Suc j) es g2
            in (\<lparr>nr_id = ''rel_'' @ eid entity1 @ ''_'' @ eid entity2,
                  from_entity = eid entity1,
                  to_entity = eid entity2,
                  relationship_type = ''semantic_similarity'',
                  strength = st\<rparr> # rest, g3))
         else connect_inner i entity1 (Suc j) es g1)
      else connect_inner i entity1 (Suc j) es g)"

fun connect_outer ::
  "nat \<Rightarrow> entity list \<Rightarrow> entity list \<Rightarrow> rng \<Rightarrow> new_relationship list \<times> rng" where
  "connect_outer i [] all g = ([], g)"
| "connect_outer i (entity1 # rest) all g =
     (let (rels1, g1) = connect_inner i entity1 0 all g;
          (rels2, g2) = connect_outer (Suc i) rest all g1
      in (rels1 @ rels2, g2))"

text \<open>The loop over \<^verbatim>\<open>visualizer.entities[:5]\<close>, which assigns to the dicts in place.\<close>

fun detect_dissonance ::
  "entity list \<Rightarrow> rng \<Rightarrow> entity list \<times> strain_change list \<times> rng" where
  "detect_dissonance [] g = ([], [], g)"
| "detect_dissonance (e # es) g =
     (let old = or_default (strain_amplitude e) 0;
          (r, g1) = random g
      in if r < 0.05 then
           (let (dissonance, g2) = uniform 0.1 0.2 g1;
                (es', changes, g3) = detect_dissonance es g2
            in (e\<lparr>strain_amplitude := Some (old + dissonance)\<rparr> # es',
                \<lparr>entity_id = eid e, old_strain = old, new_strain = old + dissonance,
                  reason = ''cognitive dissonance detected''\<rparr> # changes, g3))
         else
           (let (es', changes, g3) = detect_dissonance es g1
            in (e\<lparr>strain_amplitude := Some (max 0 (old * 0.98))\<rparr> # es', changes, g3)))"

definition process_prompt ::
  "real \<Rightarrow> string \<Rightarrow> system \<Rightarrow> rng \<Rightarrow> (py_error + response) \<times> system \<times> rng" where
  "process_prompt current_time prompt s g =
     (let words = split (lower prompt);
          (err, es1, refs, g1) = add_words current_time words (entities s) [] g
      in case err of
           Some e \<Rightarrow> (Inl e, s\<lparr>entities := es1\<rparr>, g1)
         | None \<Rightarrow>
             (let (rels, g2) = connect_outer 0 (last_slice (length words) es1) es1 g1;
                  (first5, changes, g3) = detect_dissonance (take 5 es1) g2
              in (Inr \<lparr>processed_prompt = prompt,
                       ai_response = ''Processing: '' @ prompt,
                       new_entities = refs,
                       new_relationships = rels,
                       strain_changes = changes\<rparr>,
                  s\<lparr>entities := first5 @ drop 5 es1\<rparr>, g3)))"

text \<open>
  The handler. \<open>data\<close> is the request's JSON body: \<open>None\<close> when there is none (then
  \<^verbatim>\<open>data.get\<close> raises), otherwise the value under \<^verbatim>\<open>'prompt'\<close> if the key is there.
  \<open>t1\<close> and \<open>t2\<close> are the two readings of \<^verbatim>\<open>time.time()\<close>, in \<^verbatim>\<open>process_prompt\<close>
  and for the queued item. Any exception gives the 500 answer and nothing is queued.
\<close>

datatype http_response =
    Ok200 response
  | BadRequest400 string
  | ServerError500 py_error

definition api_process_prompt ::
  "real \<Rightarrow> real \<Rightarrow> string option option \<Rightarrow> system \<Rightarrow> rng
   \<Rightarrow> http_response \<times> system \<times> rng" where
  "api_process_prompt t1 t2 data s g =
     (case data of
        None \<Rightarrow> (ServerError500 AttributeError, s, g)
      | Some d \<Rightarrow>
          (let prompt = strip (or_default d [])
           in if prompt = [] then (BadRequest400 ''No prompt provided'', s, g)
              else
                (case process_prompt t1 prompt s g of
                   (Inl err, s1, g1) \<Rightarrow> (ServerError500 err, s1, g1)
                 | (Inr resp, s1, g1) \<Rightarrow>
                     (Ok200 resp,
                      s1\<lparr>update_queue := queue_put (PromptResponse t2 prompt resp) (update_queue s1)\<rparr>,
                      g1))))"

section \<open>The live feed: \<^verbatim>\<open>update_queue\<close> and \<^verbatim>\<open>api_stream_updates\<close>\<close>

text \<open>
  Every client of \<^verbatim>\<open>/api/stream-updates\<close> runs its own \<^verbatim>\<open>generate()\<close> loop over
  the one shared queue. \<^verbatim>\<open>json.dumps(update)\<close> runs when the item has left the queue:
  an \<^verbatim>\<open>'update'\<close> item is written out with the agent and entity lists as they stand at
  that moment, and a \<^verbatim>\<open>'prompt_response'\<close> item with the dicts its references then
  point to.
\<close>

datatype payload =
    UpdateData real "agent list" "entity list"
  | PromptData real string response "entity list"

definition deref :: "entity list \<Rightarrow> nat \<Rightarrow> entity list" where
  "deref ens i = (if i < length ens then [ens ! i] else [])"

fun dumps :: "agent list \<Rightarrow> entity list \<Rightarrow> update \<Rightarrow> payload" where
  "dumps ags ens (Update ts) = UpdateData ts ags ens"
| "dumps ags ens (PromptResponse ts prompt r) =
     PromptData ts prompt r (concat (map (deref ens) (new_entities r)))"

text \<open>The queue item a payload was written from.\<close>

fun item_of :: "payload \<Rightarrow> update" where
  "item_of (UpdateData ts ags ens) = Update ts"
| "item_of (PromptData ts prompt r ens) = PromptResponse ts prompt r"

datatype event = Data payload | Heartbeat real

text \<open>
  One iteration of a client's \<^verbatim>\<open>generate()\<close> loop; \<open>now\<close> dates a heartbeat, and
  \<open>ags\<close> and \<open>ens\<close> are the live lists at that moment.
\<close>

definition generate_step ::
  "real \<Rightarrow> agent list \<Rightarrow> entity list \<Rightarrow> update list \<Rightarrow> event \<times> update list" where
  "generate_step now ags ens q =
     (case queue_get q of
        Some (u, rest) \<Rightarrow> (Data (dumps ags ens u), rest)
      | None \<Rightarrow> (Heartbeat now, q))"











section \<open>Runs of the whole system\<close>

datatype operation =
    Tick real
  | ProcessPrompt real real "string option option"
  | ReadEntities "real option" "string option"
  | StreamGet real


definition stream_get :: "real \<Rightarrow> system \<Rightarrow> system" where
  "stream_get now s =
     s\<lparr>update_queue := snd (generate_step now (agents s) (entities s) (update_queue s))\<rparr>"

fun apply_operation ::
  "(string \<Rightarrow> real option) \<Rightarrow> operation \<Rightarrow> system \<Rightarrow> rng \<Rightarrow> system \<times> rng" where
  "apply_operation p (Tick now) s g = tick p now s g"
| "apply_operation p (ProcessPrompt t1 t2 data) s g = snd (api_process_prompt t1 t2 data s g)"
| "apply_operation p (ReadEntities th ty) s g = (snd (api_entities th ty s), g)"
| "apply_operation p (StreamGet now) s g = (stream_get now s, g)"

fun run :: "(string \<Rightarrow> real option) \<Rightarrow> operation list \<Rightarrow> system \<Rightarrow> rng \<Rightarrow> system \<times> rng" where
  "run p [] s g = (s, g)"
| "run p (operation # rest) s g =
     (let (s1, g1) = apply_operation p operation s g in run p rest s1 g1)"

section \<open>The tick in binary64 arithmetic\<close>

text \<open>
  Python floats are IEEE 754 binary64 numbers. \<open>fl x\<close> is \<open>x\<close> rounded to the nearest
  number with a 53-bit significand, ties to the even significand; overflow, subnormal
  numbers, infinities and NaN are left out. \<open>normalise\<close> scales a positive number into
  the interval from \<open>2^52\<close> to \<open>2^53\<close> and returns the scaled number with the weight of
  its last bit; its first argument bounds the number of doublings or halvings, and 2200
  is more than any finite double needs.
\<close>

definition round_half_even :: "real \<Rightarrow> int" where
  "round_half_even y =
     (let f = \<lfloor>y\<rfloor>; d = y - real_of_int f
      in if d < 1/2 then f else if 1/2 < d then f + 1 else if even f then f else f + 1)"

fun normalise :: "nat \<Rightarrow> real \<Rightarrow> real \<Rightarrow> real \<times> real" where
  "normalise 0 x k = (x, k)"
| "normalise (Suc n) x k =
     (if x < 2 ^ 52 then normalise n (2 * x) (k / 2)
      else if 2 ^ 53 \<le> x then normalise n (x / 2) (2 * k)
      else (x, k))"

definition fl :: "real \<Rightarrow> real" where
  "fl x = (if x = 0 then 0
           else (let (m, k) = normalise 2200 \<bar>x\<bar> 1
                 in sgn x * real_of_int (round_half_even m) * k))"

text \<open>
  The pass of \<^verbatim>\<open>background_updater\<close> once more, now with each arithmetic operation of
  the source rounded: \<^verbatim>\<open>current_time - last_access\<close>, \<^verbatim>\<open>1.0 / max(...)\<close>,
  \<^verbatim>\<open>1.0 + ...\<close>, the conversion of the access count, the two products of
  \<^verbatim>\<open>1.0 * access_count * time_factor\<close>, \<^verbatim>\<open>sum([strain])\<close> (which adds to 0),
  \<^verbatim>\<open>current_strain + dissonance\<close>, \<^verbatim>\<open>current_strain * 0.98\<close>, the decimal literals
  and \<^verbatim>\<open>random.uniform\<close>. The numbers stored in the dicts and the clock are doubles
  already. The definitions before this section compute over exact reals instead.
\<close>

definition uniform_fp :: "real \<Rightarrow> real \<Rightarrow> rng \<Rightarrow> real \<times> rng" where
  "uniform_fp a b g = (fl (a + fl (fl (b - a) * g 0)), advance g)"

definition update_agent_fp :: "(string \<Rightarrow> real option) \<Rightarrow> real \<Rightarrow> agent \<Rightarrow> agent" where
  "update_agent_fp fromisoformat current_time a =
     (let stamp0 = or_default (agent_last_accessed a) (Num current_time);
          count0 = or_default (agent_access_count a) 1;
          last_access = last_access_of fromisoformat current_time stamp0;
          time_since_access = fl (current_time - last_access);
          time_factor = fl (1 + fl (1 / max time_since_access 1));
          new_mass = fl (fl (1 * fl (real_of_int count0)) * time_factor)
      in a\<lparr>agent_mass := Some new_mass,
            agent_access_count := Some count0,
            agent_last_accessed := Some (Num current_time)\<rparr>)"

definition update_entity_fp ::
  "(string \<Rightarrow> real option) \<Rightarrow> real \<Rightarrow> entity \<Rightarrow> rng \<Rightarrow> entity \<times> rng" where
  "update_entity_fp fromisoformat current_time e g =
     (let stamp0 = or_default (last_accessed e) (Num current_time);
          count0 = or_default (access_count e) 1;
          strain0 = or_default (strain_amplitude e) 0;
          freq0 = or_default (musical_frequency e) 440;
          last_access = last_access_of fromisoformat current_time stamp0;
          time_since_access = fl (current_time - last_access);
          time_factor = fl (1 + fl (1 / max time_since_access 1));
          new_mass = fl (fl (1 * fl (real_of_int count0)) * time_factor);
          total_resistance = fl (0 + strain0);
          e1 = e\<lparr>gravitational_mass := Some new_mass,
                 access_count := Some count0,
                 musical_frequency := Some freq0,
                 last_accessed := Some (Num current_time),
                 node_resistance := Some total_resistance,
                 strain_amplitude := Some strain0\<rparr>;
          current_strain = strain0
      in if current_strain > 0 then
           (let (r, g1) = random g in
            if r < fl 0.05 then
              (let (dissonance, g2) = uniform_fp (fl 0.1) (fl 0.2) g1
               in (e1\<lparr>strain_amplitude := Some (fl (current_strain + dissonance))\<rparr>, g2))
            else (e1\<lparr>strain_amplitude := Some (max 0 (fl (current_strain * fl 0.98)))\<rparr>,
                  g1))
         else (e1, g))"

fun update_entities_fp ::
  "(string \<Rightarrow> real option) \<Rightarrow> real \<Rightarrow> entity list \<Rightarrow> rng \<Rightarrow> entity list \<times> rng" where
  "update_entities_fp fromisoformat current_time [] g = ([], g)"
| "update_entities_fp fromisoformat current_time (e # es) g =
     (let (e', g1) = update_entity_fp fromisoformat current_time e g;
          (es', g2) = update_entities_fp fromisoformat current_time es g1
      in (e' # es', g2))"

definition tick_fp ::
  "(string \<Rightarrow> real option) \<Rightarrow> real \<Rightarrow> system \<Rightarrow> rng \<Rightarrow> system \<times> rng" where
  "tick_fp fromisoformat current_time s g =
     (let agents' = map (update_agent_fp fromisoformat current_time) (agents s);
          (entities', g') = update_entities_fp fromisoformat current_time (entities s) g
      in (s\<lparr>agents := agents',
             entities := entities',
             last_update_time := current_time,
             update_queue := queue_put (Update current_time) (update_queue s)\<rparr>, g'))"

section \<open>Fixtures for concrete runs\<close>

text \<open>A random source stubbed to return the same sample for ever.\<close>

definition stub_rng :: "real \<Rightarrow> rng" where
  "stub_rng c = (\<lambda>i. c)"

text \<open>A system holding the given entities and nothing else.\<close>

definition store_of :: "entity list \<Rightarrow> system" where
  "store_of es = \<lparr>agents = [], entities = es, relationships = [],
                   update_queue = [], last_update_time = 0\<rparr>"

text \<open>The random source after \<open>k\<close> samples have been drawn.\<close>

definition shift :: "nat \<Rightarrow> rng \<Rightarrow> rng" where
  "shift k g = (\<lambda>i. g (i + k))"

section \<open>The amplitude rule as the specification words it\<close>

text \<open>
  The specification's step 4, for comparison with \<open>update_entity\<close>: one sample is drawn
  whatever the amplitude; below 0.05 the amplitude grows by \<^verbatim>\<open>uniform(0.1, 0.2)\<close>,
  otherwise it is multiplied by 0.98; the result is floored at 0.
\<close>

definition spec_amplitude_update :: "real \<Rightarrow> rng \<Rightarrow> real \<times> rng" where
  "spec_amplitude_update a g =
     (let (r, g1) = random g
      in if r < 0.05 then (let (d, g2) = uniform 0.1 0.2 g1 in (max 0 (a + d), g2))
         else (max 0 (a * 0.98), g1))"

section \<open>The amplitude invariant\<close>

text \<open>A node's amplitude, read as 0 where the key is missing, is not negative.\<close>

definition amp_ok :: "entity \<Rightarrow> bool" where
  "amp_ok e = (0 \<le> or_default (strain_amplitude e) 0)"

definition amp_nonneg :: "system \<Rightarrow> bool" where
  "amp_nonneg s = list_all amp_ok (entities s)"

section \<open>What the dissonance pass may change\<close>



section \<open>Helper facts\<close>

lemmas str_defs = split_def lower_def lower_char_def isspace_def upper_chars_def
  lower_chars_def strip_def str_int_def py_int_def digit_char_def stop_words_def

lemmas rng_defs = random_def uniform_def randint_def advance_def

lemma advance_stub [simp]: "advance (stub_rng c) = stub_rng c"
  by (simp add: advance_def stub_rng_def)

lemma stub_rng_apply [simp]: "stub_rng c i = c"
  by (simp add: stub_rng_def)

lemma rng_ok_stub: "0 \<le> c \<Longrightarrow> c < 1 \<Longrightarrow> rng_ok (stub_rng c)"
  by (simp add: rng_ok_def)

lemma rng_ok_advance: "rng_ok g \<Longrightarrow> rng_ok (advance g)"
  by (simp add: rng_ok_def advance_def)

lemma strip_all_space:
  assumes "\<forall>c\<in>set s. isspace c"
  shows "strip s = []"
proof -
  have d: "dropWhile isspace s = []"
    using assms by simp
  show ?thesis
    unfolding strip_def d by simp
qed

lemma filter_strain_total:
  "\<forall>e\<in>set es. strain_amplitude e \<noteq> None \<Longrightarrow>
   filter_strain t es = Inr (filter (\<lambda>e. or_default (strain_amplitude e) 0 > t) es)"
  by (induction es) (auto simp: or_default_def)

text \<open>
  With a threshold other than zero, and every entity carrying a strain, the threshold
  read is the strict filter.
\<close>

lemma get_entities_nonzero_threshold:
  "t \<noteq> 0 \<Longrightarrow> \<forall>e\<in>set (entities s). strain_amplitude e \<noteq> None \<Longrightarrow>
   get_entities (Some t) None s =
     Inr (filter (\<lambda>e. or_default (strain_amplitude e) 0 > t) (entities s))"
  by (simp add: get_entities_def truthy_float_def truthy_str_def filter_strain_total
      or_default_def)

lemma uniform_range:
  assumes "rng_ok g"
  shows "0.1 \<le> fst (uniform 0.1 0.2 g) \<and> fst (uniform 0.1 0.2 g) < 0.2"
proof -
  have "0 \<le> g 0" and "g 0 < 1"
    using assms by (simp_all add: rng_ok_def)
  then show ?thesis
    by (simp add: uniform_def)
qed

lemma update_entities_Cons_fst:
  "fst (update_entities p now (e # es) g)
     = fst (update_entity p now e g)
       # fst (update_entities p now es (snd (update_entity p now e g)))"
  by (simp add: case_prod_unfold Let_def)

lemma update_entities_Cons_snd:
  "snd (update_entities p now (e # es) g)
     = snd (update_entities p now es (snd (update_entity p now e g)))"
  by (simp add: case_prod_unfold Let_def)

lemma entities_tick:
  "entities (fst (tick p now s g)) = fst (update_entities p now (entities s) g)"
  by (simp add: tick_def case_prod_unfold Let_def)

lemma update_entity_resistance:
  "node_resistance (fst (update_entity p now e g)) = Some (or_default (strain_amplitude e) 0)"
  by (simp add: update_entity_def Let_def rng_defs split: prod.splits)

lemma update_entities_resistance:
  "map node_resistance (fst (update_entities p now es g))
     = map (\<lambda>e. Some (or_default (strain_amplitude e) 0)) es"
  by (induction es arbitrary: g)
     (simp_all add: update_entity_resistance update_entities_Cons_fst
        del: update_entities.simps(2))

lemma update_entity_snd_shift:
  "\<exists>m. snd (update_entity p now e g) = shift m g"
proof -
  have 0: "g = shift 0 g" by (simp add: shift_def)
  have 1: "advance g = shift 1 g" by (simp add: shift_def advance_def)
  have 2: "advance (advance g) = shift 2 g" by (simp add: shift_def advance_def)
  show ?thesis
    using 0 1 2 by (auto simp: update_entity_def Let_def random_def uniform_def)
qed

lemma shift_shift: "shift k (shift m g) = shift (k + m) g"
  by (simp add: shift_def add.assoc)

lemma update_entities_length:
  "length (fst (update_entities p now es g)) = length es"
  by (induction es arbitrary: g)
     (simp_all add: update_entities_Cons_fst del: update_entities.simps(2))

text \<open>Each entity is updated by \<open>update_entity\<close>, on the random source as it then stands.\<close>

lemma update_entities_nth:
  "i < length es \<Longrightarrow>
   \<exists>k. fst (update_entities p now es g) ! i = fst (update_entity p now (es ! i) (shift k g))"
proof (induction es arbitrary: i g)
  case Nil
  then show ?case by simp
next
  case (Cons e es)
  show ?case
  proof (cases i)
    case 0
    have "g = shift 0 g" by (simp add: shift_def)
    then show ?thesis using 0
      by (auto simp: update_entities_Cons_fst simp del: update_entities.simps(2)
          intro!: exI[of _ 0])
  next
    case (Suc j)
    obtain m where m: "snd (update_entity p now e g) = shift m g"
      using update_entity_snd_shift by blast
    from Cons.prems Suc have "j < length es" by simp
    from Cons.IH[OF this, of "shift m g"] obtain k where
      "fst (update_entities p now es (shift m g)) ! j
         = fst (update_entity p now (es ! j) (shift k (shift m g)))" by blast
    then show ?thesis using Suc m
      by (auto simp: update_entities_Cons_fst shift_shift simp del: update_entities.simps(2))
  qed
qed

lemma update_entity_decay:
  assumes "strain_amplitude e = Some (1/2)" "access_count e = Some 3"
    "last_accessed e = Some (Num (now - 10))" "0.05 \<le> g 0"
  shows "strain_amplitude (fst (update_entity p now e g)) = Some 0.49 \<and>
         gravitational_mass (fst (update_entity p now e g)) = Some 3.3 \<and>
         last_accessed (fst (update_entity p now e g)) = Some (Num now)"
  using assms
  by (simp add: update_entity_def or_default_def last_access_of_def rng_defs Let_def)

lemma filter_strain_subset: "filter_strain t es = Inr rs \<Longrightarrow> set rs \<subseteq> set es"
  by (induction es arbitrary: rs) (auto split: option.splits sum.splits if_splits)

lemma filter_type_subset: "filter_type ty es = Inr rs \<Longrightarrow> set rs \<subseteq> set es"
  by (induction es arbitrary: rs) (auto split: option.splits sum.splits if_splits)

lemma get_entities_subset: "get_entities th ty s = Inr rs \<Longrightarrow> set rs \<subseteq> set (entities s)"
  by (auto simp: get_entities_def split: sum.splits if_splits
      dest!: filter_strain_subset filter_type_subset)


lemma rng_ok_0: "rng_ok g \<Longrightarrow> 0 \<le> g 0"
  by (simp add: rng_ok_def)

lemma update_entity_inv:
  assumes "rng_ok g" "amp_ok e"
  shows "amp_ok (fst (update_entity p now e g)) \<and> rng_ok (snd (update_entity p now e g))"
proof -
  have a: "rng_ok (advance g)" "rng_ok (advance (advance g))"
    using assms(1) by (simp_all add: rng_ok_advance)
  have "0 \<le> advance g 0" using a(1) by (rule rng_ok_0)
  then show ?thesis
    using assms a
    by (simp add: update_entity_def amp_ok_def or_default_def Let_def random_def uniform_def)
qed

lemma update_entities_inv:
  "rng_ok g \<Longrightarrow> list_all amp_ok es \<Longrightarrow>
   list_all amp_ok (fst (update_entities p now es g)) \<and>
   rng_ok (snd (update_entities p now es g))"
proof (induction es arbitrary: g)
  case Nil
  then show ?case by simp
next
  case (Cons e es)
  from Cons.prems have e: "amp_ok e" and es: "list_all amp_ok es" by simp_all
  note h = update_entity_inv[OF Cons.prems(1) e, of p now]
  from Cons.IH[OF conjunct2[OF h] es] h show ?case
    by (simp add: update_entities_Cons_fst update_entities_Cons_snd
        del: update_entities.simps(2))
qed

lemma tick_inv:
  assumes "rng_ok g" "amp_nonneg s"
  shows "amp_nonneg (fst (tick p now s g)) \<and> rng_ok (snd (tick p now s g))"
  using update_entities_inv[OF assms(1), of "entities s" p now] assms(2)
  by (simp add: amp_nonneg_def tick_def case_prod_unfold Let_def)

lemma list_all_update:
  "list_all P xs \<Longrightarrow> (i < length xs \<Longrightarrow> P y) \<Longrightarrow> list_all P (xs[i := y])"
  by (induction xs arbitrary: i) (auto split: nat.splits)

lemma add_words_inv:
  "rng_ok g \<Longrightarrow> list_all amp_ok es \<Longrightarrow>
   list_all amp_ok (fst (snd (add_words t ws es refs g))) \<and>
   rng_ok (snd (snd (snd (add_words t ws es refs g))))"
proof (induction ws arbitrary: es refs g)
  case Nil
  then show ?case by simp
next
  case (Cons w ws)
  show ?case
  proof (cases "w \<in> set stop_words")
    case True
    then show ?thesis using Cons by simp
  next
    case False
    show ?thesis
    proof (cases "find_index_of (\<lambda>e. lower (name e) = w) es")
      case None
      have 1: "rng_ok (advance g)" using Cons.prems(1) by (rule rng_ok_advance)
      have "amp_ok (new_word_entity w t (fst (randint 261 493 g)))"
        by (simp add: amp_ok_def new_word_entity_def or_default_def)
      then have 2: "list_all amp_ok (es @ [new_word_entity w t (fst (randint 261 493 g))])"
        using Cons.prems(2) by simp
      from Cons.IH[OF 1 2] show ?thesis
        using False None by (simp add: randint_def)
    next
      case (Some i)
      show ?thesis
      proof (cases "access_count (es ! i)")
        case None
        then show ?thesis using False Some Cons.prems by simp
      next
        case (Some n)
        let ?e = "(es ! i)\<lparr>access_count := Some (n + 1), last_accessed := Some (Num t)\<rparr>"
        have "i < length es \<Longrightarrow> amp_ok ?e"
          using Cons.prems(2) by (simp add: list_all_length amp_ok_def)
        with Cons.prems(2) have "list_all amp_ok (es[i := ?e])"
          by (rule list_all_update)
        from Cons.IH[OF Cons.prems(1) this] show ?thesis
          using False \<open>find_index_of _ es = Some i\<close> Some by simp
      qed
    qed
  qed
qed

lemma connect_inner_rng:
  "rng_ok g \<Longrightarrow> rng_ok (snd (connect_inner i e1 j es g))"
proof (induction es arbitrary: j g)
  case Nil
  then show ?case by simp
next
  case (Cons e2 es)
  have a: "rng_ok (advance g)" "rng_ok (advance (advance g))"
    using Cons.prems by (simp_all add: rng_ok_advance)
  note ih = Cons.IH[OF Cons.prems, of "Suc j"] Cons.IH[OF a(1), of "Suc j"]
    Cons.IH[OF a(2), of "Suc j"]
  show ?case
  proof (cases "i = j")
    case True
    then show ?thesis using ih(1) by simp
  next
    case False
    then show ?thesis using ih(2,3)
      by (simp add: random_def uniform_def case_prod_unfold Let_def)
  qed
qed

lemma connect_outer_rng:
  "rng_ok g \<Longrightarrow> rng_ok (snd (connect_outer i es1 es g))"
proof (induction es1 arbitrary: i g)
  case Nil
  then show ?case by simp
next
  case (Cons e1 es1)
  from Cons.IH[OF connect_inner_rng[OF Cons.prems]] show ?case
    by (simp add: case_prod_unfold Let_def)
qed

lemma detect_dissonance_inv:
  "rng_ok g \<Longrightarrow> list_all amp_ok es \<Longrightarrow>
   list_all amp_ok (fst (detect_dissonance es g)) \<and>
   rng_ok (snd (snd (detect_dissonance es g)))"
proof (induction es arbitrary: g)
  case Nil
  then show ?case by simp
next
  case (Cons e es)
  have a: "rng_ok (advance g)" "rng_ok (advance (advance g))"
    using Cons.prems(1) by (simp_all add: rng_ok_advance)
  have u: "0 \<le> advance g 0" using a(1) by (rule rng_ok_0)
  from Cons.prems(2) have e: "amp_ok e" and es: "list_all amp_ok es" by simp_all
  from e have e0: "0 \<le> or_default (strain_amplitude e) 0" by (simp add: amp_ok_def)
  show ?case
    using Cons.IH[OF a(1) es] Cons.IH[OF a(2) es] e0 u
    by (simp add: random_def uniform_def case_prod_unfold Let_def amp_ok_def)
       (simp add: or_default_def)
qed

lemma process_prompt_inv:
  assumes "rng_ok g" "amp_nonneg s"
  shows "amp_nonneg (fst (snd (process_prompt t prompt s g))) \<and>
         rng_ok (snd (snd (process_prompt t prompt s g)))"
proof -
  let ?ws = "split (lower prompt)"
  let ?r = "add_words t ?ws (entities s) [] g"
  let ?es1 = "fst (snd ?r)" and ?g1 = "snd (snd (snd ?r))"
  from assms have 1: "list_all amp_ok ?es1" "rng_ok ?g1"
    using add_words_inv[of g "entities s" t ?ws "[]"] by (simp_all add: amp_nonneg_def)
  let ?g2 = "snd (connect_outer 0 (last_slice (length ?ws) ?es1) ?es1 ?g1)"
  have 2: "rng_ok ?g2" using 1(2) by (rule connect_outer_rng)
  have "list_all amp_ok (take 5 ?es1)" "list_all amp_ok (drop 5 ?es1)"
    using 1(1) by (auto simp: list_all_iff dest: in_set_takeD in_set_dropD)
  with detect_dissonance_inv[OF 2, of "take 5 ?es1"]
  have 3: "list_all amp_ok (fst (detect_dissonance (take 5 ?es1) ?g2) @ drop 5 ?es1)"
      "rng_ok (snd (snd (detect_dissonance (take 5 ?es1) ?g2)))" by simp_all
  show ?thesis
    using 1 3
    by (simp add: process_prompt_def amp_nonneg_def case_prod_unfold Let_def
        split: option.splits)
qed

lemma api_process_prompt_inv:
  assumes "rng_ok g" "amp_nonneg s"
  shows "amp_nonneg (fst (snd (api_process_prompt t1 t2 data s g))) \<and>
         rng_ok (snd (snd (api_process_prompt t1 t2 data s g)))"
proof (cases data)
  case None
  then show ?thesis using assms by (simp add: api_process_prompt_def)
next
  case (Some d)
  show ?thesis
    using assms process_prompt_inv[OF assms, of t1 "strip (or_default d [])"] Some
    by (auto simp: api_process_prompt_def Let_def amp_nonneg_def split: prod.splits sum.splits)
qed

lemma apply_operation_inv:
  assumes "rng_ok g" "amp_nonneg s"
  shows "amp_nonneg (fst (apply_operation p operation s g)) \<and>
         rng_ok (snd (apply_operation p operation s g))"
proof (cases operation)
  case (Tick now)
  then show ?thesis using tick_inv[OF assms] by simp
next
  case (ProcessPrompt t1 t2 data)
  then show ?thesis using api_process_prompt_inv[OF assms] by simp
next
  case (ReadEntities th ty)
  then show ?thesis using assms by (simp add: api_entities_def)
next
  case (StreamGet now)
  then show ?thesis using assms by (simp add: stream_get_def amp_nonneg_def)
qed





















lemma item_of_dumps [simp]: "item_of (dumps ags ens u) = u"
  by (cases u) simp_all














lemma normalise_unfold:
  "normalise n x k =
     (if n = 0 then (x, k)
      else if x < 2 ^ 52 then normalise (n - 1) (2 * x) (k / 2)
      else if 2 ^ 53 \<le> x then normalise (n - 1) (x / 2) (2 * k)
      else (x, k))"
  by (cases n) simp_all

lemmas fl_eval = fl_def normalise_unfold round_half_even_def Let_def

text \<open>Known doubles: 0.1 is \<open>0x3FB999999999999A\<close>, and 1, 3 and 10 are exact.\<close>

lemma fl_known_values:
  "fl (1/10) = 3602879701896397 / 2 ^ 55" "fl 1 = 1" "fl 3 = 3" "fl 10 = 10"
  by (simp_all add: fl_eval)

lemma fl_33: "fl (33/10) = 7430939385161318 / 2 ^ 51"
  by (simp add: fl_eval)

lemma update_entities_fp_Cons_fst:
  "fst (update_entities_fp p now (e # es) g)
     = fst (update_entity_fp p now e g)
       # fst (update_entities_fp p now es (snd (update_entity_fp p now e g)))"
  by (simp add: case_prod_unfold Let_def)

lemma entities_tick_fp:
  "entities (fst (tick_fp p now s g)) = fst (update_entities_fp p now (entities s) g)"
  by (simp add: tick_fp_def case_prod_unfold Let_def)

lemma update_entity_fp_snd_shift:
  "\<exists>m. snd (update_entity_fp p now e g) = shift m g"
proof -
  have 0: "g = shift 0 g" by (simp add: shift_def)
  have 1: "advance g = shift 1 g" by (simp add: shift_def advance_def)
  have 2: "advance (advance g) = shift 2 g" by (simp add: shift_def advance_def)
  show ?thesis
    using 0 1 2 by (auto simp: update_entity_fp_def Let_def random_def uniform_fp_def)
qed

lemma update_entities_fp_nth:
  "i < length es \<Longrightarrow>
   \<exists>k. fst (update_entities_fp p now es g) ! i
        = fst (update_entity_fp p now (es ! i) (shift k g))"
proof (induction es arbitrary: i g)
  case Nil
  then show ?case by simp
next
  case (Cons e es)
  show ?case
  proof (cases i)
    case 0
    have "g = shift 0 g" by (simp add: shift_def)
    then show ?thesis using 0
      by (auto simp: update_entities_fp_Cons_fst simp del: update_entities_fp.simps(2)
          intro!: exI[of _ 0])
  next
    case (Suc j)
    obtain m where m: "snd (update_entity_fp p now e g) = shift m g"
      using update_entity_fp_snd_shift by blast
    from Cons.prems Suc have "j < length es" by simp
    from Cons.IH[OF this, of "shift m g"] obtain k where
      "fst (update_entities_fp p now es (shift m g)) ! j
         = fst (update_entity_fp p now (es ! j) (shift k (shift m g)))" by blast
    then show ?thesis using Suc m
      by (auto simp: update_entities_fp_Cons_fst shift_shift
          simp del: update_entities_fp.simps(2))
  qed
qed

lemma update_entity_fp_decay:
  assumes "strain_amplitude e = Some (1/2)" "access_count e = Some 3"
    "last_accessed e = Some (Num (now - 10))" "fl (5/100) \<le> g 0"
  shows "strain_amplitude (fst (update_entity_fp p now e g)) = Some (fl (49/100)) \<and>
         gravitational_mass (fst (update_entity_fp p now e g))
           = Some (7430939385161319 / 2 ^ 51) \<and>
         last_accessed (fst (update_entity_fp p now e g)) = Some (Num now)"
proof -
  have fl10: "fl 10 = 10" by (simp add: fl_eval)
  have r: "\<not> g 0 < fl (5/100)" using assms(4) by simp
  show ?thesis
    using assms(1-3) r
    by (simp add: update_entity_fp_def or_default_def last_access_of_def random_def Let_def fl10)
       (simp add: fl_eval)
qed

section \<open>The tick leaves the edges alone\<close>

text \<open>
  C9. One pass of the engine returns the relationship list it was given: no edge is
  changed, removed or added, whatever the time, the state and the random samples.
\<close>

theorem tick_keeps_relationships:
  "relationships (fst (tick p now s g)) = relationships s"
  by (simp add: tick_def Let_def split: prod.splits)

section \<open>Blank input to the ingestion hook\<close>

text \<open>
  C10. When the prompt is missing, empty or made of whitespace only, the handler answers
  with the 400 error and returns the state and the random source untouched: no entity is
  created or touched and nothing is put on the queue.
\<close>

theorem blank_prompt_rejected:
  assumes "\<forall>c\<in>set (or_default d []). isspace c"
  shows "api_process_prompt t1 t2 (Some d) s g = (BadRequest400 ''No prompt provided'', s, g)"
  using strip_all_space[OF assms] by (simp add: api_process_prompt_def)

text \<open>The same at a prompt of a space, a tab and a space, on a store of one node.\<close>

theorem blank_prompt_rejected_witness:
  "api_process_prompt 100 101 (Some (Some [CHR '' '', CHR 0x09, CHR '' '']))
     (store_of [new_word_entity ''cat'' 90 300]) (stub_rng (1/2))
   = (BadRequest400 ''No prompt provided'',
      store_of [new_word_entity ''cat'' 90 300], stub_rng (1/2))"
proof -
  have h: "\<forall>c\<in>set (or_default (Some [CHR '' '', CHR 0x09, CHR '' '']) []). isspace c"
    by (simp add: or_default_def isspace_def)
  show ?thesis
    using blank_prompt_rejected[OF h] by simp
qed

section \<open>The threshold read at zero\<close>

text \<open>
  C6. The claim asks for the strict filter at every threshold, zero included. At the
  threshold 0 the test \<^verbatim>\<open>if strain_threshold:\<close> is false, the filter is skipped, and
  a node whose amplitude is 0 is returned although 0 is not greater than 0.
\<close>

theorem zero_threshold_not_filtered:
  "get_entities (Some 0) None (store_of [new_word_entity ''cat'' 90 300])
     = Inr [new_word_entity ''cat'' 90 300] \<and>
   strain_amplitude (new_word_entity ''cat'' 90 300) = Some 0"
  by (simp add: get_entities_def truthy_float_def truthy_str_def new_word_entity_def
      store_of_def)

section \<open>Resistance after a tick\<close>

text \<open>
  C2, as the code has it. After a tick every node's resistance is the amplitude the node
  had before that tick (0 where it had none): the resistance is assigned first and the
  amplitude is updated after it, so the resistance is the old amplitude, not the new one.
\<close>

theorem tick_resistance_is_old_amplitude:
  "map node_resistance (entities (fst (tick p now s g)))
     = map (\<lambda>e. Some (or_default (strain_amplitude e) 0)) (entities s)"
  by (simp add: entities_tick update_entities_resistance)

text \<open>
  The claim as stated fails: a node of amplitude 0.5 on the decay branch leaves the tick
  with resistance 0.5 and amplitude 0.49.
\<close>

theorem tick_resistance_counterexample:
  "map node_resistance
       (entities (fst (tick Map.empty 110
          (store_of [(new_word_entity ''cat'' 100 300)\<lparr>strain_amplitude := Some (1/2)\<rparr>])
          (stub_rng (1/2))))) = [Some (1/2)] \<and>
   map strain_amplitude
       (entities (fst (tick Map.empty 110
          (store_of [(new_word_entity ''cat'' 100 300)\<lparr>strain_amplitude := Some (1/2)\<rparr>])
          (stub_rng (1/2))))) = [Some (49/100)]"
  by (simp add: tick_def store_of_def update_entity_def new_word_entity_def or_default_def
      last_access_of_def rng_defs Let_def)

section \<open>The amplitude update\<close>

text \<open>
  C3, as the code has it. With samples in [0, 1): a node of positive amplitude \<open>a\<close> draws
  one sample; below 0.05 it draws a second one and the amplitude becomes \<open>a\<close> plus an
  amount in [0.1, 0.2); otherwise the amplitude becomes \<open>max 0 (a * 0.98)\<close>. A node whose
  amplitude is not positive draws no sample and keeps its amplitude.
\<close>

theorem amplitude_update_guarded:
  assumes "rng_ok g"
  shows "let a = or_default (strain_amplitude e) 0;
             e' = fst (update_entity p now e g);
             g' = snd (update_entity p now e g)
         in if 0 < a then
              (if g 0 < 0.05 then
                 strain_amplitude e' = Some (a + fst (uniform 0.1 0.2 (advance g))) \<and>
                 0.1 \<le> fst (uniform 0.1 0.2 (advance g)) \<and>
                 fst (uniform 0.1 0.2 (advance g)) < 0.2 \<and>
                 g' = advance (advance g)
               else strain_amplitude e' = Some (max 0 (a * 0.98)) \<and> g' = advance g)
            else strain_amplitude e' = Some a \<and> g' = g"
proof -
  have "rng_ok (advance g)"
    using assms by (rule rng_ok_advance)
  from uniform_range[OF this] show ?thesis
    by (simp add: update_entity_def Let_def random_def)
       (simp add: uniform_def)
qed

text \<open>A node of amplitude 0.5 with every sample 0.01 grows to 0.5 + 0.101.\<close>

theorem amplitude_update_guarded_witness:
  "strain_amplitude (fst (update_entity Map.empty 110
       ((new_word_entity ''cat'' 100 300)\<lparr>strain_amplitude := Some (1/2)\<rparr>)
       (stub_rng (1/100)))) = Some (601/1000)"
  using amplitude_update_guarded[OF rng_ok_stub, of "1/100"
      "(new_word_entity ''cat'' 100 300)\<lparr>strain_amplitude := Some (1/2)\<rparr>" Map.empty 110]
  by (simp add: new_word_entity_def or_default_def uniform_def Let_def)

text \<open>
  The claim as stated fails at amplitude 0: with every sample 0.01 the specification's
  rule gives 0.101, and the code leaves the amplitude at 0.
\<close>

theorem amplitude_update_counterexample:
  "strain_amplitude (fst (update_entity Map.empty 110 (new_word_entity ''cat'' 100 300)
       (stub_rng (1/100)))) = Some 0 \<and>
   fst (spec_amplitude_update 0 (stub_rng (1/100))) = 101/1000"
  by (simp add: update_entity_def new_word_entity_def or_default_def last_access_of_def
      spec_amplitude_update_def rng_defs Let_def)

section \<open>The decay scenario\<close>

text \<open>Over exact reals the scenario gives amplitude 0.49 and mass exactly 3.3.\<close>

lemma tick_decay_exact:
  assumes "\<forall>j. 0.05 \<le> g j"
    and "i < length (entities s)"
    and "strain_amplitude (entities s ! i) = Some 0.5"
    and "access_count (entities s ! i) = Some 3"
    and "last_accessed (entities s ! i) = Some (Num (now - 10))"
  shows "strain_amplitude (entities (fst (tick p now s g)) ! i) = Some 0.49 \<and>
         gravitational_mass (entities (fst (tick p now s g)) ! i) = Some 3.3 \<and>
         last_accessed (entities (fst (tick p now s g)) ! i) = Some (Num now)"
proof -
  obtain k where k: "fst (update_entities p now (entities s) g) ! i
      = fst (update_entity p now (entities s ! i) (shift k g))"
    using update_entities_nth[OF assms(2)] by blast
  have g: "0.05 \<le> shift k g 0"
    using assms(1) by (simp add: shift_def)
  from assms(3) have a: "strain_amplitude (entities s ! i) = Some (1/2)"
    by simp
  show ?thesis
    unfolding entities_tick k
    using update_entity_decay[of "entities s ! i" now "shift k g" p, OF a assms(4) assms(5) g]
    by simp
qed

text \<open>
  C5, as the code has it. In binary64 arithmetic, a node with amplitude 0.5, access count
  3 and last access 10 seconds before the tick, under a random source whose every sample
  takes the decay branch, leaves the tick with amplitude equal to the double 0.49, last
  access equal to the tick time, and mass \<open>7430939385161319 / 2^51\<close>, which Python
  prints as 3.3000000000000003: the double next above the double 3.3, not 3.3.
\<close>

theorem tick_decay_scenario_binary64:
  assumes "\<forall>j. fl 0.05 \<le> g j"
    and "i < length (entities s)"
    and "strain_amplitude (entities s ! i) = Some 0.5"
    and "access_count (entities s ! i) = Some 3"
    and "last_accessed (entities s ! i) = Some (Num (now - 10))"
  shows "strain_amplitude (entities (fst (tick_fp p now s g)) ! i) = Some (fl 0.49) \<and>
         gravitational_mass (entities (fst (tick_fp p now s g)) ! i)
           = Some (7430939385161319 / 2 ^ 51) \<and>
         last_accessed (entities (fst (tick_fp p now s g)) ! i) = Some (Num now)"
proof -
  obtain k where k: "fst (update_entities_fp p now (entities s) g) ! i
      = fst (update_entity_fp p now (entities s ! i) (shift k g))"
    using update_entities_fp_nth[OF assms(2)] by blast
  have g: "fl (5/100) \<le> shift k g 0"
    using assms(1) by (simp add: shift_def)
  from assms(3) have a: "strain_amplitude (entities s ! i) = Some (1/2)"
    by simp
  have c: "(0.49::real) = 49/100" by simp
  show ?thesis
    unfolding entities_tick_fp k c
    using update_entity_fp_decay[of "entities s ! i" now "shift k g" p,
        OF a assms(4) assms(5) g]
    by simp
qed

text \<open>The scenario on a store of one such node, at tick time 110, every sample 0.5.\<close>

theorem tick_decay_scenario_binary64_witness:
  "strain_amplitude (entities (fst (tick_fp Map.empty 110
      (store_of [(new_word_entity ''n0'' 100 300)
                   \<lparr>strain_amplitude := Some 0.5, access_count := Some 3\<rparr>])
      (stub_rng (1/2)))) ! 0) = Some (fl 0.49) \<and>
   gravitational_mass (entities (fst (tick_fp Map.empty 110
      (store_of [(new_word_entity ''n0'' 100 300)
                   \<lparr>strain_amplitude := Some 0.5, access_count := Some 3\<rparr>])
      (stub_rng (1/2)))) ! 0) = Some (7430939385161319 / 2 ^ 51) \<and>
   last_accessed (entities (fst (tick_fp Map.empty 110
      (store_of [(new_word_entity ''n0'' 100 300)
                   \<lparr>strain_amplitude := Some 0.5, access_count := Some 3\<rparr>])
      (stub_rng (1/2)))) ! 0) = Some (Num 110)"
proof -
  have g: "\<forall>j. fl 0.05 \<le> stub_rng (1/2) j"
    by (simp add: fl_eval)
  show ?thesis
    using tick_decay_scenario_binary64[of "stub_rng (1/2)" 0
      "store_of [(new_word_entity ''n0'' 100 300)
                   \<lparr>strain_amplitude := Some 0.5, access_count := Some 3\<rparr>]"
      110 Map.empty, OF g]
    by (simp add: store_of_def new_word_entity_def)
qed

text \<open>
  The claim as stated fails: the mass the tick computes is \<open>7430939385161319 / 2^51\<close>,
  while the literal 3.3 is the double \<open>7430939385161318 / 2^51\<close> (and the real 3.3 is
  neither).
\<close>

theorem tick_decay_counterexample:
  "gravitational_mass (entities (fst (tick_fp Map.empty 110
      (store_of [(new_word_entity ''n0'' 100 300)
                   \<lparr>strain_amplitude := Some 0.5, access_count := Some 3\<rparr>])
      (stub_rng (1/2)))) ! 0) = Some (7430939385161319 / 2251799813685248) \<and>
   fl 3.3 = 7430939385161318 / 2251799813685248"
proof -
  have 1: "fl 10 = 10" by (simp add: fl_eval)
  have 2: "fl 3.3 = 7430939385161318 / 2251799813685248" by (simp add: fl_eval)
  have 3: "\<not> (1/2 :: real) < fl 0.05" by (simp add: fl_eval)
  show ?thesis
    using 2 3
    by (simp add: tick_fp_def store_of_def update_entity_fp_def new_word_entity_def
        or_default_def last_access_of_def random_def Let_def 1)
       (simp add: fl_eval)
qed

section \<open>Bulk reads have no effect on the store\<close>

text \<open>
  C4, as the code has it. A bulk read returns the state it was given, so no node's access
  count or last access time changes, and every node it returns is a stored node as stored.
\<close>

theorem bulk_read_changes_nothing:
  "snd (api_entities th ty s) = s \<and>
   (case fst (api_entities th ty s) of
      Inl err \<Rightarrow> True
    | Inr es \<Rightarrow> set es \<subseteq> set (entities s))"
  by (auto simp: api_entities_def split: sum.splits dest: get_entities_subset)

text \<open>
  The claim as stated fails: the node created by ingesting \<open>cat\<close> at time 100 is read
  back with access count 1 and last access 100, and the store after the read still holds
  it so.
\<close>

theorem bulk_read_counterexample:
  "api_entities None None
      (fst (snd (api_process_prompt 100 101 (Some (Some ''cat'')) (store_of [])
                  (stub_rng (1/2)))))
   = (Inr [new_word_entity ''cat'' 100 377],
      (store_of [new_word_entity ''cat'' 100 377])
        \<lparr>update_queue := [PromptResponse 101 ''cat''
            \<lparr>processed_prompt = ''cat'', ai_response = ''Processing: cat'',
             new_entities = [0], new_relationships = [], strain_changes = []\<rparr>]\<rparr>) \<and>
   access_count (new_word_entity ''cat'' 100 377) = Some 1 \<and>
   last_accessed (new_word_entity ''cat'' 100 377) = Some (Num 100)"
  by (simp add: api_entities_def get_entities_def truthy_float_def truthy_str_def
      api_process_prompt_def process_prompt_def str_defs rng_defs new_word_entity_def
      last_slice_def or_default_def store_of_def queue_put_def Let_def)

section \<open>The live feed hands each item to one client\<close>




section \<open>Amplitudes stay non-negative\<close>

text \<open>
  C7. Starting from a store in which no node has a negative amplitude, and with random
  samples in [0, 1), no node has a negative amplitude after any sequence of engine
  ticks, ingestion requests, bulk reads and stream gets. Nodes created by ingestion start
  at amplitude 0.
\<close>

theorem amplitude_never_negative:
  "rng_ok g \<Longrightarrow> amp_nonneg s \<Longrightarrow> amp_nonneg (fst (run p ops s g))"
proof (induction ops arbitrary: s g)
  case Nil
  then show ?case by simp
next
  case (Cons operation ops)
  note h = apply_operation_inv[OF Cons.prems, of p operation]
  from Cons.IH[OF conjunct2[OF h] conjunct1[OF h]] show ?case
    by (simp add: case_prod_unfold Let_def)
qed

text \<open>
  A run from a store of one node of amplitude 0.5: an ingestion, a tick, a read, a stream
  get and another tick, with every sample 0.01 (the growth branch).
\<close>

theorem amplitude_never_negative_witness:
  "amp_nonneg (fst (run Map.empty
      [ProcessPrompt 100 101 (Some (Some ''the cat sat'')), Tick 102,
       ReadEntities (Some 0) None, StreamGet 103, Tick 104]
      (store_of [(new_word_entity ''dog'' 90 300)\<lparr>strain_amplitude := Some (1/2)\<rparr>])
      (stub_rng (1/100))))"
proof -
  have g: "rng_ok (stub_rng (1/100))"
    by (simp add: rng_ok_stub)
  have s: "amp_nonneg (store_of [(new_word_entity ''dog'' 90 300)\<lparr>strain_amplitude := Some (1/2)\<rparr>])"
    by (simp add: amp_nonneg_def amp_ok_def store_of_def or_default_def)
  show ?thesis
    by (rule amplitude_never_negative[OF g s])
qed

section \<open>Ingestion creates new word nodes and counts known ones\<close>




end
